theory Spec2Isabelle
  imports Main
begin

section \<open>The command \<open>ionic ssl generate\<close> (packages/ionic/src/commands/ssl/generate.ts)\<close>

text \<open>
  The command resolves its options against fixed defaults, makes sure the two destination
  directories exist, asks before overwriting an existing key or certificate, writes an
  OpenSSL configuration to a temporary file and runs \<open>openssl req\<close> once.

  The embedding is shallow. A JavaScript string is the HOL string of the bytes of its UTF-8
  encoding (an ASCII character is one byte, and \<open>fsWriteFile\<close> with encoding \<open>utf8\<close> writes
  these bytes). An \<open>async\<close> method is a
  function from the state before the call to its outcome (a thrown exception or a returned
  value) and the state after it. The state is the world the collaborators of the command
  act on (file system, terminal, operator, external tool), together with the list of the
  effectful calls made so far, in the order they were made.
\<close>

subsection \<open>Option values\<close>

text \<open>
  Modelled from the spec: the type \<open>CommandLineOptions\<close> is declared in
  \<open>@ionic/cli-utils\<close>, outside this unit. The spec (4.1, 6.1) describes the options as
  named, optional and textual; the value found under a key is a string, and the model also
  admits what an argument parser may leave there otherwise (a boolean flag, \<open>null\<close>,
  \<open>undefined\<close>, the list of a repeated option), so that \<open>String(...)\<close> and the test for
  truthiness of the source are defined on every value. A key that is not in the bag reads
  as \<open>undefined\<close>.
\<close>

datatype CommandLineInput =
    JString string
  | JBoolean bool
  | JNull
  | JUndefined
  | JArray "string list"

type_synonym CommandLineOptions = "string \<rightharpoonup> CommandLineInput"

text \<open>\<open>options[k]\<close>\<close>

definition opt_get :: "CommandLineOptions \<Rightarrow> string \<Rightarrow> CommandLineInput" where
  "opt_get options k = (case options k of None \<Rightarrow> JUndefined | Some v \<Rightarrow> v)"

text \<open>\<open>Array.prototype.join\<close> on a list of strings.\<close>

fun join :: "string \<Rightarrow> string list \<Rightarrow> string" where
  "join sep [] = []"
| "join sep [x] = x"
| "join sep (x # y # ys) = x @ sep @ join sep (y # ys)"

text \<open>The condition of \<open>v ? a : b\<close>: ECMAScript's ToBoolean.\<close>

fun truthy :: "CommandLineInput \<Rightarrow> bool" where
  "truthy (JString s) = (s \<noteq> [])"
| "truthy (JBoolean b) = b"
| "truthy JNull = False"
| "truthy JUndefined = False"
| "truthy (JArray xs) = True"

text \<open>\<open>String(v)\<close>: ECMAScript's ToString.\<close>

fun js_String :: "CommandLineInput \<Rightarrow> string" where
  "js_String (JString s) = s"
| "js_String (JBoolean b) = (if b then ''true'' else ''false'')"
| "js_String JNull = ''null''"
| "js_String JUndefined = ''undefined''"
| "js_String (JArray xs) = join '','' xs"

text \<open>
  \<open>String.prototype.trim\<close> removes, at both ends, the characters of ECMAScript's
  WhiteSpace and LineTerminator. In UTF-8 these are the single bytes of tab, line feed,
  vertical tab, form feed, carriage return and space; the two bytes \<open>C2 A0\<close> of U+00A0;
  and the three bytes of U+1680 (\<open>E1 9A 80\<close>), U+2000 to U+200A (\<open>E2 80 80\<close> to
  \<open>E2 80 8A\<close>), U+2028, U+2029 and U+202F (\<open>E2 80 A8\<close>, \<open>E2 80 A9\<close>, \<open>E2 80 AF\<close>),
  U+205F (\<open>E2 81 9F\<close>), U+3000 (\<open>E3 80 80\<close>) and U+FEFF (\<open>EF BB BF\<close>).
\<close>

definition white1 :: "char \<Rightarrow> bool" where
  "white1 a =
     (a = CHR 0x09 \<or> a = CHR 0x0A \<or> a = CHR 0x0B \<or> a = CHR 0x0C \<or> a = CHR 0x0D \<or> a = CHR 0x20)"

definition white2 :: "char \<Rightarrow> char \<Rightarrow> bool" where
  "white2 a b = (a = CHR 0xC2 \<and> b = CHR 0xA0)"

definition white3 :: "char \<Rightarrow> char \<Rightarrow> char \<Rightarrow> bool" where
  "white3 a b c =
     ((a = CHR 0xE1 \<and> b = CHR 0x9A \<and> c = CHR 0x80) \<or>
      (a = CHR 0xE2 \<and> b = CHR 0x80 \<and>
         c \<in> set [CHR 0x80, CHR 0x81, CHR 0x82, CHR 0x83, CHR 0x84, CHR 0x85, CHR 0x86, CHR 0x87,
                   CHR 0x88, CHR 0x89, CHR 0x8A, CHR 0xA8, CHR 0xA9, CHR 0xAF]) \<or>
      (a = CHR 0xE2 \<and> b = CHR 0x81 \<and> c = CHR 0x9F) \<or>
      (a = CHR 0xE3 \<and> b = CHR 0x80 \<and> c = CHR 0x80) \<or>
      (a = CHR 0xEF \<and> b = CHR 0xBB \<and> c = CHR 0xBF))"

text \<open>White space removed from the front of a string.\<close>

fun trimStart :: "string \<Rightarrow> string" where
  "trimStart (a # b # c # s) =
     (if white1 a then trimStart (b # c # s)
      else if white2 a b then trimStart (c # s)
      else if white3 a b c then trimStart s
      else a # b # c # s)"
| "trimStart [a, b] =
     (if white1 a then trimStart [b] else if white2 a b then [] else [a, b])"
| "trimStart [a] = (if white1 a then [] else [a])"
| "trimStart [] = []"

text \<open>The same from the back, on the reversed string: the last byte comes first.\<close>

fun trimStart_rev :: "string \<Rightarrow> string" where
  "trimStart_rev (c # b # a # s) =
     (if white1 c then trimStart_rev (b # a # s)
      else if white2 b c then trimStart_rev (a # s)
      else if white3 a b c then trimStart_rev s
      else c # b # a # s)"
| "trimStart_rev [c, b] =
     (if white1 c then trimStart_rev [b] else if white2 b c then [] else [c, b])"
| "trimStart_rev [c] = (if white1 c then [] else [c])"
| "trimStart_rev [] = []"

definition trimEnd :: "string \<Rightarrow> string" where
  "trimEnd s = rev (trimStart_rev (rev s))"

definition trim :: "string \<Rightarrow> string" where
  "trim s = trimEnd (trimStart s)"

subsection \<open>Constants and data (lines 15 to 32)\<close>

definition DEFAULT_BITS :: string where
  "DEFAULT_BITS = ''2048''"

definition DEFAULT_COUNTRY_NAME :: string where
  "DEFAULT_COUNTRY_NAME = ''US''"

definition DEFAULT_STATE_OR_PROVINCE_NAME :: string where
  "DEFAULT_STATE_OR_PROVINCE_NAME = ''Wisconsin''"

definition DEFAULT_LOCALITY_NAME :: string where
  "DEFAULT_LOCALITY_NAME = ''Madison''"

definition DEFAULT_ORGANIZATION_NAME :: string where
  "DEFAULT_ORGANIZATION_NAME = ''Ionic''"

definition DEFAULT_COMMON_NAME :: string where
  "DEFAULT_COMMON_NAME = ''localhost''"

record OpenSSLConfig =
  bits :: string
  countryName :: string
  stateOrProvinceName :: string
  localityName :: string
  organizationName :: string
  commonName :: string

definition DEFAULT_KEY_FILE :: string where
  "DEFAULT_KEY_FILE = ''.ionic/ssl/key.pem''"

definition DEFAULT_CERT_FILE :: string where
  "DEFAULT_CERT_FILE = ''.ionic/ssl/cert.pem''"

text \<open>\<open>this.project\<close>, when set, has a directory.\<close>

record project =
  directory :: string

subsection \<open>Exceptions, effects and the environment\<close>

text \<open>
  \<open>FatalException\<close> is the error class of the command line for fatal, user-facing errors;
  \<open>Error\<close> stands for every other exception a collaborator may throw.
\<close>

datatype exn = FatalException string | Error string

text \<open>
  The effectful calls of the command, as they are made: \<open>fsMkdirp(p, mode)\<close>,
  \<open>env.prompt\<close> of type confirm with its message and what came back, \<open>fsUnlink(p)\<close>,
  \<open>fsWriteFile(p, data, {encoding})\<close>, \<open>env.shell.run(command, args, {})\<close> and the four
  calls on \<open>env.log\<close>.
\<close>

datatype event =
    Mkdirp string nat
  | Prompt string "exn + bool"
  | Unlink string
  | WriteFile string string string
  | ShellRun string "string list"
  | LogMsg string
  | LogNl
  | LogRawmsg string
  | LogOk string

text \<open>
  The collaborators of the command, none of which is defined in this unit: Node's
  \<open>path\<close> module (\<open>path.resolve\<close> depends on the working directory and the platform),
  \<open>prettyPath\<close>, \<open>chalk\<close>, the functions of \<open>@ionic/utils-fs\<close>, the prompt and the
  shell of \<open>this.env\<close>. They are parameters: a record of functions over a world \<open>'w\<close>
  that is theirs. A call that can fail returns an exception or a value, and the world
  after it.
\<close>

record 'w environment =
  path_resolve :: "string list \<Rightarrow> string"
  path_dirname :: "string \<Rightarrow> string"
  prettyPath :: "string \<Rightarrow> string"
  chalk_bold :: "string \<Rightarrow> string"
  chalk_green :: "string \<Rightarrow> string"
  pathExists :: "string \<Rightarrow> 'w \<Rightarrow> bool"
  fsMkdirp :: "string \<Rightarrow> nat \<Rightarrow> 'w \<Rightarrow> (exn + unit) \<times> 'w"
  fsUnlink :: "string \<Rightarrow> 'w \<Rightarrow> (exn + unit) \<times> 'w"
  fsWriteFile :: "string \<Rightarrow> string \<Rightarrow> string \<Rightarrow> 'w \<Rightarrow> (exn + unit) \<times> 'w"
  tmpfilepath :: "string \<Rightarrow> 'w \<Rightarrow> string"
  prompt_confirm :: "string \<Rightarrow> 'w \<Rightarrow> (exn + bool) \<times> 'w"
  shell_run :: "string \<Rightarrow> string list \<Rightarrow> 'w \<Rightarrow> (exn + unit) \<times> 'w"

text \<open>An \<open>async\<close> computation: from the world and the calls so far, to an outcome and both after.\<close>

type_synonym ('w, 'a) io = "'w \<times> event list \<Rightarrow> (exn + 'a) \<times> ('w \<times> event list)"

definition return :: "'a \<Rightarrow> ('w, 'a) io" where
  "return x s = (Inr x, s)"

definition throw :: "exn \<Rightarrow> ('w, 'a) io" where
  "throw e s = (Inl e, s)"

text \<open>\<open>const x = await m; f(x)\<close>: an exception of \<open>m\<close> ends the computation.\<close>

definition await :: "('w, 'a) io \<Rightarrow> ('a \<Rightarrow> ('w, 'b) io) \<Rightarrow> ('w, 'b) io" where
  "await m f s = (case m s of (Inl e, s') \<Rightarrow> (Inl e, s') | (Inr x, s') \<Rightarrow> f x s')"

text \<open>A call to a collaborator that acts on the world: the call is recorded with its outcome.\<close>

definition perform :: "((exn + 'a) \<Rightarrow> event) \<Rightarrow> ('w \<Rightarrow> (exn + 'a) \<times> 'w) \<Rightarrow> ('w, 'a) io" where
  "perform mk act s = (case act (fst s) of (r, w') \<Rightarrow> (r, (w', snd s @ [mk r])))"

text \<open>A call on \<open>env.log\<close>: recorded, and nothing else.\<close>

definition emit :: "event \<Rightarrow> ('w, unit) io" where
  "emit ev s = (Inr (), (fst s, snd s @ [ev]))"

subsection \<open>The methods of \<open>SSLGenerateCommand\<close>\<close>

text \<open>
  \<open>getMetadata\<close> describes the options to the framework and is not modelled.
  \<open>preRun\<close> (lines 112 to 114) awaits \<open>checkForOpenSSL\<close>, a method the command inherits
  from \<open>SSLBaseCommand\<close> in \<open>./base\<close>, which is not part of this unit: the check is a
  parameter, any computation.
\<close>

definition preRun :: "('w, 'a) io \<Rightarrow> ('w, unit) io" where
  "preRun checkForOpenSSL = await checkForOpenSSL (\<lambda>_. return ())"

definition getDefaultKeyPath :: "'w environment \<Rightarrow> project option \<Rightarrow> string" where
  "getDefaultKeyPath env this_project =
     path_resolve env
       [case this_project of Some p \<Rightarrow> directory p | None \<Rightarrow> [], DEFAULT_KEY_FILE]"

definition getDefaultCertPath :: "'w environment \<Rightarrow> project option \<Rightarrow> string" where
  "getDefaultCertPath env this_project =
     path_resolve env
       [case this_project of Some p \<Rightarrow> directory p | None \<Rightarrow> [], DEFAULT_CERT_FILE]"

text \<open>\<open>lodash.toPairs(cnf)\<close>: the own properties of the object literal of line 147, in the order they were written.\<close>

definition toPairs :: "OpenSSLConfig \<Rightarrow> (string \<times> string) list" where
  "toPairs cnf =
     [(''bits'', bits cnf),
      (''countryName'', countryName cnf),
      (''stateOrProvinceName'', stateOrProvinceName cnf),
      (''localityName'', localityName cnf),
      (''organizationName'', organizationName cnf),
      (''commonName'', commonName cnf)]"

text \<open>The \<open>Map\<close> of \<open>formatSubj\<close>; \<open>has\<close> and \<open>get\<close> are \<open>map_of\<close>, and \<open>undefined\<close> in a template prints as such.\<close>

definition subjNames :: "(string \<times> string) list" where
  "subjNames =
     [(''countryName'', ''C''),
      (''stateOrProvinceName'', ''ST''),
      (''localityName'', ''L''),
      (''organizationName'', ''O''),
      (''commonName'', ''CN'')]"

definition formatSubj :: "OpenSSLConfig \<Rightarrow> string" where
  "formatSubj cnf =
     ''/'' @ join ''/''
       (map (\<lambda>(k, v). (case map_of subjNames k of Some n \<Rightarrow> n | None \<Rightarrow> ''undefined'') @ ''='' @ v)
         (filter (\<lambda>(k, v). map_of subjNames k \<noteq> None) (toPairs cnf)))"

definition ensureDirectory :: "'w environment \<Rightarrow> string \<Rightarrow> ('w, unit) io" where
  "ensureDirectory env p s =
     (if \<not> pathExists env p (fst s) then
        await (perform (\<lambda>_. Mkdirp p 448) (fsMkdirp env p 448)) (\<lambda>_.
        emit (LogMsg (''Created '' @ chalk_bold env (prettyPath env p) @ '' directory for you.''))) s
      else return () s)"

text \<open>The message of the prompt, line 186.\<close>

definition overwrite_message :: "'w environment \<Rightarrow> string \<Rightarrow> string" where
  "overwrite_message env p = ''Key '' @ chalk_bold env (prettyPath env p) @ '' exists. Overwrite?''"

text \<open>The result is \<open>boolean | undefined\<close>: \<open>None\<close> is \<open>undefined\<close>, at the end of the body.\<close>

definition checkExistingFile :: "'w environment \<Rightarrow> string \<Rightarrow> ('w, bool option) io" where
  "checkExistingFile env p s =
     (if pathExists env p (fst s) then
        await
          (perform (Prompt (overwrite_message env p)) (prompt_confirm env (overwrite_message env p)))
          (\<lambda>confirm.
             if confirm then return (Some True)
             else throw (FatalException (''Not overwriting '' @ chalk_bold env (prettyPath env p) @ ''.''))) s
      else return None s)"

text \<open>The constant \<open>cnf\<close> of \<open>writeConfig\<close>, lines 198 to 212: the template, trimmed.\<close>

definition writeConfig_cnf :: "OpenSSLConfig \<Rightarrow> string" where
  "writeConfig_cnf c =
     trim (concat
       [''\<newline>'',
        ''[req]\<newline>'',
        ''default_bits       = '', bits c, ''\<newline>'',
        ''distinguished_name = req_distinguished_name\<newline>'',
        ''\<newline>'',
        ''[req_distinguished_name]\<newline>'',
        ''countryName                = '', countryName c, ''\<newline>'',
        ''stateOrProvinceName        = '', stateOrProvinceName c, ''\<newline>'',
        ''localityName               = '', localityName c, ''\<newline>'',
        ''organizationName           = '', organizationName c, ''\<newline>'',
        ''commonName                 = '', commonName c, ''\<newline>'',
        ''\<newline>'',
        ''[SAN]\<newline>'',
        ''subjectAltName=DNS:'', commonName c, ''\<newline>''])"

definition writeConfig :: "'w environment \<Rightarrow> OpenSSLConfig \<Rightarrow> ('w, string) io" where
  "writeConfig env c s =
     (let cnf = writeConfig_cnf c;
          p = tmpfilepath env ''ionic-ssl'' (fst s)
      in await (perform (\<lambda>_. WriteFile p cnf ''utf8'') (fsWriteFile env p cnf ''utf8'')) (\<lambda>_.
         return p) s)"

text \<open>The constants of \<open>run\<close>, lines 121 to 131 and 147.\<close>

definition run_keyPath :: "'w environment \<Rightarrow> project option \<Rightarrow> CommandLineOptions \<Rightarrow> string" where
  "run_keyPath env this_project options =
     path_resolve env
       [if truthy (opt_get options ''key-path'') then js_String (opt_get options ''key-path'')
        else getDefaultKeyPath env this_project]"

definition run_keyPathDir :: "'w environment \<Rightarrow> project option \<Rightarrow> CommandLineOptions \<Rightarrow> string" where
  "run_keyPathDir env this_project options = path_dirname env (run_keyPath env this_project options)"

definition run_certPath :: "'w environment \<Rightarrow> project option \<Rightarrow> CommandLineOptions \<Rightarrow> string" where
  "run_certPath env this_project options =
     path_resolve env
       [if truthy (opt_get options ''cert-path'') then js_String (opt_get options ''cert-path'')
        else getDefaultCertPath env this_project]"

definition run_certPathDir :: "'w environment \<Rightarrow> project option \<Rightarrow> CommandLineOptions \<Rightarrow> string" where
  "run_certPathDir env this_project options = path_dirname env (run_certPath env this_project options)"

definition run_cnf :: "CommandLineOptions \<Rightarrow> OpenSSLConfig" where
  "run_cnf options =
     \<lparr> bits =
         (if truthy (opt_get options ''bits'') then js_String (opt_get options ''bits'')
          else DEFAULT_BITS),
       countryName =
         (if truthy (opt_get options ''country-name'') then js_String (opt_get options ''country-name'')
          else DEFAULT_COUNTRY_NAME),
       stateOrProvinceName =
         (if truthy (opt_get options ''state-or-province-name'')
          then js_String (opt_get options ''state-or-province-name'')
          else DEFAULT_STATE_OR_PROVINCE_NAME),
       localityName =
         (if truthy (opt_get options ''locality-name'') then js_String (opt_get options ''locality-name'')
          else DEFAULT_LOCALITY_NAME),
       organizationName =
         (if truthy (opt_get options ''organization-name'')
          then js_String (opt_get options ''organization-name'')
          else DEFAULT_ORGANIZATION_NAME),
       commonName =
         (if truthy (opt_get options ''common-name'') then js_String (opt_get options ''common-name'')
          else DEFAULT_COMMON_NAME) \<rparr>"

text \<open>The argument list of line 150.\<close>

definition openssl_args :: "OpenSSLConfig \<Rightarrow> string \<Rightarrow> string \<Rightarrow> string \<Rightarrow> string list" where
  "openssl_args cnf cnfPath keyPath certPath =
     [''req'', ''-x509'', ''-newkey'', ''rsa:'' @ bits cnf, ''-nodes'', ''-subj'', formatSubj cnf,
      ''-reqexts'', ''SAN'', ''-extensions'', ''SAN'', ''-config'', cnfPath, ''-days'', ''365'',
      ''-keyout'', keyPath, ''-out'', certPath]"

text \<open>\<open>if (x)\<close> on a \<open>boolean | undefined\<close>.\<close>

definition truthy_flag :: "bool option \<Rightarrow> bool" where
  "truthy_flag x = (case x of Some b \<Rightarrow> b | None \<Rightarrow> False)"

definition run :: "'w environment \<Rightarrow> project option \<Rightarrow> CommandLineOptions \<Rightarrow> ('w, unit) io" where
  "run env this_project options =
     (if this_project = None then
        throw (FatalException
          (''Cannot run '' @ chalk_green env ''ionic ssl generate'' @ '' outside a project directory.''))
      else
        (let keyPath = run_keyPath env this_project options;
             keyPathDir = run_keyPathDir env this_project options;
             certPath = run_certPath env this_project options;
             certPathDir = run_certPathDir env this_project options;
             cnf = run_cnf options
         in
         await (ensureDirectory env keyPathDir) (\<lambda>_.
         await (ensureDirectory env certPathDir) (\<lambda>_.
         await (checkExistingFile env keyPath) (\<lambda>overwriteKeyPath.
         await (checkExistingFile env certPath) (\<lambda>overwriteCertPath.
         await (if truthy_flag overwriteKeyPath
                then perform (\<lambda>_. Unlink keyPath) (fsUnlink env keyPath) else return ()) (\<lambda>_.
         await (if truthy_flag overwriteCertPath
                then perform (\<lambda>_. Unlink certPath) (fsUnlink env certPath) else return ()) (\<lambda>_.
         await (writeConfig env cnf) (\<lambda>cnfPath.
         await (perform (\<lambda>_. ShellRun ''openssl'' (openssl_args cnf cnfPath keyPath certPath))
                  (shell_run env ''openssl'' (openssl_args cnf cnfPath keyPath certPath))) (\<lambda>_.
         await (emit LogNl) (\<lambda>_.
         await (emit (LogRawmsg
                  (''Key:  '' @ chalk_bold env (prettyPath env keyPath) @ ''\<newline>'' @
                   ''Cert: '' @ chalk_bold env (prettyPath env certPath) @ ''\<newline>\<newline>''))) (\<lambda>_.
         emit (LogOk ''Generated key & certificate!'')))))))))))))"

subsection \<open>The calls of a run\<close>

text \<open>The calls a computation adds to those made before it.\<close>

definition events_of :: "('w, 'a) io \<Rightarrow> 'w \<times> event list \<Rightarrow> event list" where
  "events_of m s = drop (length (snd s)) (snd (snd (m s)))"

fun is_Mkdirp :: "event \<Rightarrow> bool" where
  "is_Mkdirp (Mkdirp p mode) = True"
| "is_Mkdirp _ = False"

fun is_LogMsg :: "event \<Rightarrow> bool" where
  "is_LogMsg (LogMsg m) = True"
| "is_LogMsg _ = False"

fun is_Unlink :: "event \<Rightarrow> bool" where
  "is_Unlink (Unlink p) = True"
| "is_Unlink _ = False"

fun is_WriteFile :: "event \<Rightarrow> bool" where
  "is_WriteFile (WriteFile p d enc) = True"
| "is_WriteFile _ = False"

fun is_ShellRun :: "event \<Rightarrow> bool" where
  "is_ShellRun (ShellRun c args) = True"
| "is_ShellRun _ = False"

text \<open>The calls through which the command can delete or change a file: unlinking, writing, the external tool.\<close>

definition touches_files :: "event \<Rightarrow> bool" where
  "touches_files e = (is_Unlink e \<or> is_WriteFile e \<or> is_ShellRun e)"


text \<open>
  A computation only adds calls: the calls before it stay, and the outcome and the calls it
  adds satisfy \<open>Q\<close>. With \<open>only A\<close>, every call it adds is an \<open>A\<close>.
\<close>

definition emits :: "('w, 'a) io \<Rightarrow> ((exn + 'a) \<Rightarrow> event list \<Rightarrow> bool) \<Rightarrow> bool" where
  "emits m Q = (\<forall>s. snd (snd (m s)) = snd s @ events_of m s \<and> Q (fst (m s)) (events_of m s))"

definition only :: "(event \<Rightarrow> bool) \<Rightarrow> ('w, 'a) io \<Rightarrow> bool" where
  "only A m = emits m (\<lambda>r evs. list_all A evs)"



subsection \<open>Reading a configuration text\<close>




subsection \<open>An environment in memory\<close>

text \<open>
  An environment to run the command in on concrete inputs: a table of files and
  directories, an operator who answers from a list, a tool that succeeds. Paths are
  joined and split at \<open>/\<close> without normalisation, from the working directory
  \<open>/home/dev\<close>; \<open>prettyPath\<close> and \<open>chalk\<close> leave their argument as it is.
\<close>

datatype node = File string | Dir nat

record mem =
  nodes :: "string \<rightharpoonup> node"
  answers :: "bool list"

definition mem_resolve :: "string list \<Rightarrow> string" where
  "mem_resolve ps =
     foldl (\<lambda>acc p. if p = [] then acc else if hd p = CHR ''/'' then p else acc @ ''/'' @ p)
       ''/home/dev'' ps"

definition mem_dirname :: "string \<Rightarrow> string" where
  "mem_dirname p =
     (let d = rev (drop 1 (dropWhile (\<lambda>c. c \<noteq> CHR ''/'') (rev p)))
      in if d = [] then ''/'' else d)"

definition mem_env :: "mem environment" where
  "mem_env =
     \<lparr> path_resolve = mem_resolve,
       path_dirname = mem_dirname,
       prettyPath = (\<lambda>p. p),
       chalk_bold = (\<lambda>t. t),
       chalk_green = (\<lambda>t. t),
       pathExists = (\<lambda>p w. nodes w p \<noteq> None),
       fsMkdirp = (\<lambda>p mode w. (Inr (), w\<lparr>nodes := (nodes w)(p \<mapsto> Dir mode)\<rparr>)),
       fsUnlink = (\<lambda>p w.
         (case nodes w p of
            Some (File d) \<Rightarrow> (Inr (), w\<lparr>nodes := (nodes w)(p := None)\<rparr>)
          | _ \<Rightarrow> (Inl (Error ''unlink failed''), w))),
       fsWriteFile = (\<lambda>p d enc w. (Inr (), w\<lparr>nodes := (nodes w)(p \<mapsto> File d)\<rparr>)),
       tmpfilepath = (\<lambda>prefix w. ''/tmp/'' @ prefix),
       prompt_confirm = (\<lambda>m w.
         (case answers w of
            [] \<Rightarrow> (Inl (Error ''no answer''), w)
          | a # rest \<Rightarrow> (Inr a, w\<lparr>answers := rest\<rparr>))),
       shell_run = (\<lambda>c args w. (Inr (), w)) \<rparr>"

text \<open>A project, a world where the directory, the key and the certificate exist and the
  operator accepts the first prompt and declines the second, and a world with no files.\<close>

definition demo_project :: project where
  "demo_project = \<lparr> directory = ''/app'' \<rparr>"

definition demo_world :: mem where
  "demo_world =
     \<lparr> nodes = [''/app/.ionic/ssl'' \<mapsto> Dir 448,
                ''/app/.ionic/ssl/key.pem'' \<mapsto> File ''old key'',
                ''/app/.ionic/ssl/cert.pem'' \<mapsto> File ''old cert''],
       answers = [True, False] \<rparr>"

definition empty_world :: mem where
  "empty_world = \<lparr> nodes = Map.empty, answers = [] \<rparr>"

section \<open>Reasoning about the calls of a computation\<close>

subsection \<open>Rules for \<open>emits\<close> and \<open>only\<close>\<close>

lemma emitsI:
  assumes "\<And>s. \<exists>evs. snd (snd (m s)) = snd s @ evs \<and> Q (fst (m s)) evs"
  shows "emits m Q"
  unfolding emits_def events_of_def
proof (intro allI)
  fix s
  from assms obtain evs where "snd (snd (m s)) = snd s @ evs" "Q (fst (m s)) evs" by blast
  then show "snd (snd (m s)) = snd s @ drop (length (snd s)) (snd (snd (m s))) \<and>
    Q (fst (m s)) (drop (length (snd s)) (snd (snd (m s))))" by simp
qed

lemma emitsD:
  assumes "emits m Q"
  shows "snd (snd (m s)) = snd s @ events_of m s" and "Q (fst (m s)) (events_of m s)"
  using assms unfolding emits_def by blast+


lemma emits_return: "Q (Inr x) [] \<Longrightarrow> emits (return x) Q"
  by (rule emitsI) (simp add: return_def)

lemma emits_throw: "Q (Inl e) [] \<Longrightarrow> emits (throw e) Q"
  by (rule emitsI) (simp add: throw_def)

lemma emits_emit: "Q (Inr ()) [ev] \<Longrightarrow> emits (emit ev) Q"
  by (rule emitsI) (simp add: emit_def)

lemma emits_perform: "(\<And>r. Q r [mk r]) \<Longrightarrow> emits (perform mk act) Q"
  by (rule emitsI) (simp add: perform_def split: prod.split)

lemma emits_await:
  assumes m: "emits m P"
    and f: "\<And>x. emits (f x) (R x)"
    and l: "\<And>e evs. P (Inl e) evs \<Longrightarrow> Q (Inl e) evs"
    and r: "\<And>x evs r evs'. P (Inr x) evs \<Longrightarrow> R x r evs' \<Longrightarrow> Q r (evs @ evs')"
  shows "emits (await m f) Q"
proof (rule emitsI)
  fix s
  obtain r1 s1 where ms: "m s = (r1, s1)" by (cases "m s")
  from emitsD [OF m, of s] ms
  have t1: "snd s1 = snd s @ events_of m s" and p1: "P r1 (events_of m s)" by simp_all
  show "\<exists>evs. snd (snd (await m f s)) = snd s @ evs \<and> Q (fst (await m f s)) evs"
  proof (cases r1)
    case (Inl e)
    with ms t1 p1 l show ?thesis by (auto simp: await_def)
  next
    case (Inr x)
    from emitsD [OF f, of x s1]
    have t2: "snd (snd (f x s1)) = snd s1 @ events_of (f x) s1"
      and p2: "R x (fst (f x s1)) (events_of (f x) s1)" by simp_all
    from Inr ms have "await m f s = f x s1" by (simp add: await_def)
    with t1 t2 p1 p2 r Inr show ?thesis by auto
  qed
qed

lemma emits_cond:
  assumes "emits a Q" and "emits b Q"
  shows "emits (\<lambda>s. if c s then a s else b s) Q"
  using assms unfolding emits_def events_of_def by simp

lemma only_return: "only A (return x)" unfolding only_def by (rule emits_return) simp

lemma only_throw: "only A (throw e)" unfolding only_def by (rule emits_throw) simp

lemma only_emit: "A ev \<Longrightarrow> only A (emit ev)" unfolding only_def by (rule emits_emit) simp

lemma only_perform: "(\<And>r. A (mk r)) \<Longrightarrow> only A (perform mk act)" unfolding only_def by (rule emits_perform) simp

lemma only_await: "only A m \<Longrightarrow> (\<And>x. only A (f x)) \<Longrightarrow> only A (await m f)"
  unfolding only_def by (erule emits_await) auto

lemma only_cond: "only A a \<Longrightarrow> only A b \<Longrightarrow> only A (\<lambda>s. if c s then a s else b s)"
  unfolding only_def by (rule emits_cond)

lemma only_if: "only A a \<Longrightarrow> only A b \<Longrightarrow> only A (if c then a else b)"
  by simp

subsection \<open>The methods, call by call\<close>

lemma ensureDirectory_eq:
  "ensureDirectory env p =
    (\<lambda>s. if \<not> pathExists env p (fst s) then
        await (perform (\<lambda>_. Mkdirp p 448) (fsMkdirp env p 448)) (\<lambda>_.
        emit (LogMsg (''Created '' @ chalk_bold env (prettyPath env p) @ '' directory for you.''))) s
      else return () s)"
  by (rule ext) (simp add: ensureDirectory_def)

lemma only_ensureDirectory:
  assumes "A (Mkdirp p 448)" and "A (LogMsg (''Created '' @ chalk_bold env (prettyPath env p) @ '' directory for you.''))"
  shows "only A (ensureDirectory env p)"
  unfolding ensureDirectory_eq
  by (intro only_cond only_await only_perform only_emit only_return assms)

lemma checkExistingFile_eq:
  "checkExistingFile env p =
     (\<lambda>s. if pathExists env p (fst s) then
        await
          (perform (Prompt (overwrite_message env p))
             (prompt_confirm env (overwrite_message env p)))
          (\<lambda>confirm.
             if confirm then return (Some True)
             else throw (FatalException (''Not overwriting '' @ chalk_bold env (prettyPath env p) @ ''.''))) s
      else return None s)"
  by (rule ext) (simp add: checkExistingFile_def)

lemma only_checkExistingFile:
  assumes "\<And>a. A (Prompt (overwrite_message env p) a)"
  shows "only A (checkExistingFile env p)"
  unfolding checkExistingFile_eq
  by (intro only_cond only_await only_perform only_if only_return only_throw assms)

subsection \<open>The shape of a run\<close>





lemma run_in_project:
  assumes "this_project \<noteq> None"
  shows "run env this_project options =
         await (ensureDirectory env (run_keyPathDir env this_project options)) (\<lambda>_.
         await (ensureDirectory env (run_certPathDir env this_project options)) (\<lambda>_.
         await (checkExistingFile env (run_keyPath env this_project options)) (\<lambda>overwriteKeyPath.
         await (checkExistingFile env (run_certPath env this_project options)) (\<lambda>overwriteCertPath.
         await (if truthy_flag overwriteKeyPath
                then perform (\<lambda>_. Unlink (run_keyPath env this_project options))
                       (fsUnlink env (run_keyPath env this_project options)) else return ()) (\<lambda>_.
         await (if truthy_flag overwriteCertPath
                then perform (\<lambda>_. Unlink (run_certPath env this_project options))
                       (fsUnlink env (run_certPath env this_project options)) else return ()) (\<lambda>_.
         await (writeConfig env (run_cnf options)) (\<lambda>cnfPath.
         await (perform (\<lambda>_. ShellRun ''openssl'' (openssl_args (run_cnf options) cnfPath
                    (run_keyPath env this_project options) (run_certPath env this_project options)))
                  (shell_run env ''openssl'' (openssl_args (run_cnf options) cnfPath
                    (run_keyPath env this_project options) (run_certPath env this_project options)))) (\<lambda>_.
         await (emit LogNl) (\<lambda>_.
         await (emit (LogRawmsg
                  (''Key:  '' @ chalk_bold env (prettyPath env (run_keyPath env this_project options)) @ ''\<newline>'' @
                   ''Cert: '' @ chalk_bold env (prettyPath env (run_certPath env this_project options)) @ ''\<newline>\<newline>''))) (\<lambda>_.
         emit (LogOk ''Generated key & certificate!'')))))))))))"
  unfolding run_def Let_def if_not_P [OF assms] ..







subsection \<open>Stepping through a computation\<close>

lemma await_Inl: "m s = (Inl e, s') \<Longrightarrow> await m f s = (Inl e, s')"
  by (simp add: await_def)

lemma await_Inr: "m s = (Inr x, s') \<Longrightarrow> await m f s = f x s'"
  by (simp add: await_def)

lemma await_assoc: "await (await m f) g = await m (\<lambda>x. await (f x) g)"
  by (rule ext) (simp add: await_def split: prod.split sum.split)

lemma ensureDirectory_unfold:
  "ensureDirectory env p (w, tr) =
     (if pathExists env p w then (Inr (), (w, tr))
      else (case fsMkdirp env p 448 w of
              (Inl e, w') \<Rightarrow> (Inl e, (w', tr @ [Mkdirp p 448]))
            | (Inr u, w') \<Rightarrow>
                (Inr (), (w', tr @ [Mkdirp p 448,
                   LogMsg (''Created '' @ chalk_bold env (prettyPath env p) @ '' directory for you.'')]))))"
  by (simp add: ensureDirectory_def await_def perform_def emit_def return_def
      split: prod.split sum.split)

lemma checkExistingFile_unfold:
  "checkExistingFile env p (w, tr) =
     (if pathExists env p w then
        (case prompt_confirm env (overwrite_message env p) w of
           (Inl e, w') \<Rightarrow> (Inl e, (w', tr @ [Prompt (overwrite_message env p) (Inl e)]))
         | (Inr confirm, w') \<Rightarrow>
             (if confirm then (Inr (Some True), (w', tr @ [Prompt (overwrite_message env p) (Inr True)]))
              else (Inl (FatalException (''Not overwriting '' @ chalk_bold env (prettyPath env p) @ ''.'')),
                    (w', tr @ [Prompt (overwrite_message env p) (Inr False)]))))
      else (Inr None, (w, tr)))"
  by (simp add: checkExistingFile_def await_def perform_def throw_def return_def
      split: prod.split sum.split)


lemma writeConfig_eq:
  "writeConfig env c =
     (\<lambda>s. await (perform (\<lambda>_. WriteFile (tmpfilepath env ''ionic-ssl'' (fst s)) (writeConfig_cnf c) ''utf8'')
                  (fsWriteFile env (tmpfilepath env ''ionic-ssl'' (fst s)) (writeConfig_cnf c) ''utf8''))
            (\<lambda>_. return (tmpfilepath env ''ionic-ssl'' (fst s))) s)"
  by (rule ext) (simp add: writeConfig_def Let_def)

lemma only_state: "(\<And>s0. only A (m s0)) \<Longrightarrow> only A (\<lambda>s. m s s)"
  unfolding only_def emits_def events_of_def by simp

lemma only_writeConfig:
  assumes "\<And>p. A (WriteFile p (writeConfig_cnf c) ''utf8'')"
  shows "only A (writeConfig env c)"
  unfolding writeConfig_eq
  by (rule only_state) (intro only_await only_perform only_return assms)

lemma run_directories_first:
  assumes "this_project \<noteq> None"
  shows "run env this_project options =
         await (await (ensureDirectory env (run_keyPathDir env this_project options)) (\<lambda>_.
                  ensureDirectory env (run_certPathDir env this_project options))) (\<lambda>_.
         await (checkExistingFile env (run_keyPath env this_project options)) (\<lambda>overwriteKeyPath.
         await (checkExistingFile env (run_certPath env this_project options)) (\<lambda>overwriteCertPath.
         await (if truthy_flag overwriteKeyPath
                then perform (\<lambda>_. Unlink (run_keyPath env this_project options))
                       (fsUnlink env (run_keyPath env this_project options)) else return ()) (\<lambda>_.
         await (if truthy_flag overwriteCertPath
                then perform (\<lambda>_. Unlink (run_certPath env this_project options))
                       (fsUnlink env (run_certPath env this_project options)) else return ()) (\<lambda>_.
         await (writeConfig env (run_cnf options)) (\<lambda>cnfPath.
         await (perform (\<lambda>_. ShellRun ''openssl'' (openssl_args (run_cnf options) cnfPath
                    (run_keyPath env this_project options) (run_certPath env this_project options)))
                  (shell_run env ''openssl'' (openssl_args (run_cnf options) cnfPath
                    (run_keyPath env this_project options) (run_certPath env this_project options)))) (\<lambda>_.
         await (emit LogNl) (\<lambda>_.
         await (emit (LogRawmsg
                  (''Key:  '' @ chalk_bold env (prettyPath env (run_keyPath env this_project options)) @ ''\<newline>'' @
                   ''Cert: '' @ chalk_bold env (prettyPath env (run_certPath env this_project options)) @ ''\<newline>\<newline>''))) (\<lambda>_.
         emit (LogOk ''Generated key & certificate!''))))))))))"
  unfolding run_in_project [OF assms] await_assoc ..


lemma only_directories:
  "only (\<lambda>e. is_Mkdirp e \<or> is_LogMsg e)
     (await (ensureDirectory env kd) (\<lambda>_. ensureDirectory env cd))"
  by (intro only_await only_ensureDirectory) simp_all

lemma only_run:
  assumes proj: "this_project \<noteq> None"
    and A: "A (Mkdirp (run_keyPathDir env this_project options) 448)"
      "A (LogMsg (''Created '' @ chalk_bold env (prettyPath env (run_keyPathDir env this_project options)) @ '' directory for you.''))"
      "A (Mkdirp (run_certPathDir env this_project options) 448)"
      "A (LogMsg (''Created '' @ chalk_bold env (prettyPath env (run_certPathDir env this_project options)) @ '' directory for you.''))"
      "\<And>a. A (Prompt (overwrite_message env (run_keyPath env this_project options)) a)"
      "\<And>a. A (Prompt (overwrite_message env (run_certPath env this_project options)) a)"
      "\<And>p. A (Unlink p)" "\<And>p d e. A (WriteFile p d e)"
      "\<And>c args. A (ShellRun c args)" "A LogNl" "\<And>m. A (LogRawmsg m)" "\<And>m. A (LogOk m)"
  shows "only A (run env this_project options)"
  unfolding run_in_project [OF proj]
  by (intro only_await only_ensureDirectory only_checkExistingFile only_writeConfig only_if
      only_perform only_emit only_return A)

subsection \<open>Running in the environment in memory\<close>


lemma mem_env_simps [simp]:
  "path_resolve mem_env = mem_resolve"
  "path_dirname mem_env = mem_dirname"
  "prettyPath mem_env = (\<lambda>p. p)"
  "chalk_bold mem_env = (\<lambda>t. t)"
  "chalk_green mem_env = (\<lambda>t. t)"
  "pathExists mem_env = (\<lambda>p w. nodes w p \<noteq> None)"
  "fsMkdirp mem_env = (\<lambda>p mode w. (Inr (), w\<lparr>nodes := (nodes w)(p \<mapsto> Dir mode)\<rparr>))"
  "fsUnlink mem_env = (\<lambda>p w.
         (case nodes w p of
            Some (File d) \<Rightarrow> (Inr (), w\<lparr>nodes := (nodes w)(p := None)\<rparr>)
          | _ \<Rightarrow> (Inl (Error ''unlink failed''), w)))"
  "fsWriteFile mem_env = (\<lambda>p d enc w. (Inr (), w\<lparr>nodes := (nodes w)(p \<mapsto> File d)\<rparr>))"
  "tmpfilepath mem_env = (\<lambda>prefix w. ''/tmp/'' @ prefix)"
  "prompt_confirm mem_env = (\<lambda>m w.
         (case answers w of
            [] \<Rightarrow> (Inl (Error ''no answer''), w)
          | a # rest \<Rightarrow> (Inr a, w\<lparr>answers := rest\<rparr>)))"
  "shell_run mem_env = (\<lambda>c args w. (Inr (), w))"
  by (simp_all add: mem_env_def)

lemma demo_paths:
  "run_keyPath mem_env (Some demo_project) Map.empty = ''/app/.ionic/ssl/key.pem''"
  "run_certPath mem_env (Some demo_project) Map.empty = ''/app/.ionic/ssl/cert.pem''"
  "run_keyPathDir mem_env (Some demo_project) Map.empty = ''/app/.ionic/ssl''"
  "run_certPathDir mem_env (Some demo_project) Map.empty = ''/app/.ionic/ssl''"
  by (simp_all add: run_keyPath_def run_certPath_def run_keyPathDir_def run_certPathDir_def
      getDefaultKeyPath_def getDefaultCertPath_def opt_get_def demo_project_def mem_resolve_def
      mem_dirname_def DEFAULT_KEY_FILE_def DEFAULT_CERT_FILE_def)



subsection \<open>Trimming\<close>

text \<open>
  White space of one, two and three bytes goes at both ends; other characters of several
  bytes stay (U+00E9, and U+200B, which is not white space); and a no-break space at the
  end of the common name is cut from the configuration text, which ends with it.
\<close>

lemma trim_examples:
  "trim [CHR 0x20, CHR ''a'', CHR 0xC2, CHR 0xA0] = ''a''"
  "trim [CHR 0xE2, CHR 0x80, CHR 0xA8, CHR ''x'', CHR 0x20, CHR ''y'', CHR 0xEF, CHR 0xBB, CHR 0xBF, CHR 0x0A] = ''x y''"
  "trim [CHR ''a'', CHR 0xC3, CHR 0xA9] = [CHR ''a'', CHR 0xC3, CHR 0xA9]"
  "trim [CHR ''a'', CHR 0xE2, CHR 0x80, CHR 0x8B] = [CHR ''a'', CHR 0xE2, CHR 0x80, CHR 0x8B]"
  "trim [CHR 0xE3, CHR 0x80, CHR 0x80, CHR 0xE1, CHR 0x9A, CHR 0x80, CHR 0xE2, CHR 0x81, CHR 0x9F] = []"
  by (simp_all add: trim_def trimEnd_def white1_def white2_def white3_def)

lemma writeConfig_cnf_trailing_no_break_space:
  "writeConfig_cnf
     \<lparr> bits = ''2048'', countryName = ''US'', stateOrProvinceName = ''Wisconsin'',
       localityName = ''Madison'', organizationName = ''Ionic'',
       commonName = [CHR ''h'', CHR 0xC2, CHR 0xA0] \<rparr> =
   ''[req]\<newline>default_bits       = 2048\<newline>distinguished_name = req_distinguished_name\<newline>\<newline>[req_distinguished_name]\<newline>countryName                = US\<newline>stateOrProvinceName        = Wisconsin\<newline>localityName               = Madison\<newline>organizationName           = Ionic\<newline>commonName                 = '' @
   [CHR ''h'', CHR 0xC2, CHR 0xA0] @ ''\<newline>\<newline>[SAN]\<newline>subjectAltName=DNS:h''"
  by (simp add: writeConfig_cnf_def trim_def trimEnd_def white1_def white2_def white3_def)

section \<open>The claims\<close>

subsection \<open>Overwrite prompts and deletion\<close>

text \<open>
  C1. Take a run inside a project in which both destination directories were ensured, and
  the key file and the certificate file both exist when they are checked. If the operator
  declines the first prompt, the command fails with the fatal error \<open>Not overwriting <key>.\<close>
  after that one prompt; if the operator accepts the first and declines the second, it fails
  with \<open>Not overwriting <cert>.\<close> after the two prompts. In both cases the world is the one
  the prompts left and the calls made are those of the directory step followed by the
  prompts. A call that unlinks, writes or runs the external tool happens in such a run only
  if both prompts came back affirmative.
\<close>

theorem declined_overwrite_unlinks_nothing:
  assumes proj: "this_project \<noteq> None"
    and dirs: "await (ensureDirectory env (run_keyPathDir env this_project options)) (\<lambda>_.
                 ensureDirectory env (run_certPathDir env this_project options)) s = (Inr (), s1)"
    and key_exists: "pathExists env (run_keyPath env this_project options) (fst s1)"
    and first:
      "prompt_confirm env (overwrite_message env (run_keyPath env this_project options)) (fst s1) = (a1, w2)"
    and cert_exists: "pathExists env (run_certPath env this_project options) w2"
    and second:
      "prompt_confirm env (overwrite_message env (run_certPath env this_project options)) w2 = (a2, w3)"
  shows
    "(a1 = Inr False \<longrightarrow>
        run env this_project options s =
          (Inl (FatalException
             (''Not overwriting '' @ chalk_bold env (prettyPath env (run_keyPath env this_project options)) @ ''.'')),
           (w2, snd s1 @ [Prompt (overwrite_message env (run_keyPath env this_project options)) (Inr False)])))
   \<and> (a1 = Inr True \<and> a2 = Inr False \<longrightarrow>
        run env this_project options s =
          (Inl (FatalException
             (''Not overwriting '' @ chalk_bold env (prettyPath env (run_certPath env this_project options)) @ ''.'')),
           (w3, snd s1 @ [Prompt (overwrite_message env (run_keyPath env this_project options)) (Inr True),
                          Prompt (overwrite_message env (run_certPath env this_project options)) (Inr False)])))
   \<and> (list_ex touches_files (events_of (run env this_project options) s) \<longrightarrow>
        a1 = Inr True \<and> a2 = Inr True)"
proof -
  let ?kp = "run_keyPath env this_project options"
  let ?cp = "run_certPath env this_project options"
  let ?D = "await (ensureDirectory env (run_keyPathDir env this_project options)) (\<lambda>_.
                  ensureDirectory env (run_certPathDir env this_project options))"
  let ?K = "\<lambda>overwriteKeyPath.
         await (checkExistingFile env ?cp) (\<lambda>overwriteCertPath.
         await (if truthy_flag overwriteKeyPath
                then perform (\<lambda>_. Unlink ?kp) (fsUnlink env ?kp) else return ()) (\<lambda>_.
         await (if truthy_flag overwriteCertPath
                then perform (\<lambda>_. Unlink ?cp) (fsUnlink env ?cp) else return ()) (\<lambda>_.
         await (writeConfig env (run_cnf options)) (\<lambda>cnfPath.
         await (perform (\<lambda>_. ShellRun ''openssl'' (openssl_args (run_cnf options) cnfPath ?kp ?cp))
                  (shell_run env ''openssl'' (openssl_args (run_cnf options) cnfPath ?kp ?cp))) (\<lambda>_.
         await (emit LogNl) (\<lambda>_.
         await (emit (LogRawmsg
                  (''Key:  '' @ chalk_bold env (prettyPath env ?kp) @ ''\<newline>'' @
                   ''Cert: '' @ chalk_bold env (prettyPath env ?cp) @ ''\<newline>\<newline>''))) (\<lambda>_.
         emit (LogOk ''Generated key & certificate!''))))))))"
  have "run env this_project options s = await ?D (\<lambda>_. await (checkExistingFile env ?kp) ?K) s"
    by (simp only: run_directories_first [OF proj])
  also have "\<dots> = await (checkExistingFile env ?kp) ?K s1"
    using dirs by (rule await_Inr)
  finally have run: "run env this_project options s = await (checkExistingFile env ?kp) ?K s1" .
  have s1: "s1 = (fst s1, snd s1)" by simp
  have ck: "checkExistingFile env ?kp s1 =
     (case a1 of
        Inl e \<Rightarrow> (Inl e, (w2, snd s1 @ [Prompt (overwrite_message env ?kp) (Inl e)]))
      | Inr confirm \<Rightarrow>
          (if confirm then (Inr (Some True), (w2, snd s1 @ [Prompt (overwrite_message env ?kp) (Inr True)]))
           else (Inl (FatalException (''Not overwriting '' @ chalk_bold env (prettyPath env ?kp) @ ''.'')),
                 (w2, snd s1 @ [Prompt (overwrite_message env ?kp) (Inr False)]))))"
    by (subst s1, subst checkExistingFile_unfold) (simp add: key_exists first split: sum.split)
  have cc: "\<And>tr. checkExistingFile env ?cp (w2, tr) =
     (case a2 of
        Inl e \<Rightarrow> (Inl e, (w3, tr @ [Prompt (overwrite_message env ?cp) (Inl e)]))
      | Inr confirm \<Rightarrow>
          (if confirm then (Inr (Some True), (w3, tr @ [Prompt (overwrite_message env ?cp) (Inr True)]))
           else (Inl (FatalException (''Not overwriting '' @ chalk_bold env (prettyPath env ?cp) @ ''.'')),
                 (w3, tr @ [Prompt (overwrite_message env ?cp) (Inr False)]))))"
    by (subst checkExistingFile_unfold) (simp add: cert_exists second split: sum.split)
  from emitsD [OF only_directories [unfolded only_def], of env "run_keyPathDir env this_project options"
      "run_certPathDir env this_project options" s] dirs
  have tr1: "snd s1 = snd s @ events_of ?D s"
    and dir: "list_all (\<lambda>e. is_Mkdirp e \<or> is_LogMsg e) (events_of ?D s)" by simp_all
  have quiet: "\<not> list_ex touches_files (events_of ?D s)"
  proof -
    have "\<And>e. is_Mkdirp e \<or> is_LogMsg e \<Longrightarrow> \<not> touches_files e"
      by (case_tac e) (simp_all add: touches_files_def)
    with dir show ?thesis by (auto simp: list_all_iff list_ex_iff)
  qed
  have first_no: "a1 = Inr False \<Longrightarrow>
        run env this_project options s =
          (Inl (FatalException (''Not overwriting '' @ chalk_bold env (prettyPath env ?kp) @ ''.'')),
           (w2, snd s1 @ [Prompt (overwrite_message env ?kp) (Inr False)]))"
    unfolding run by (rule await_Inl) (simp add: ck)
  have first_err: "\<And>e. a1 = Inl e \<Longrightarrow>
        run env this_project options s =
          (Inl e, (w2, snd s1 @ [Prompt (overwrite_message env ?kp) (Inl e)]))"
    unfolding run by (rule await_Inl) (simp add: ck)
  have first_yes: "a1 = Inr True \<Longrightarrow>
        run env this_project options s =
          ?K (Some True) (w2, snd s1 @ [Prompt (overwrite_message env ?kp) (Inr True)])"
    unfolding run by (rule await_Inr) (simp add: ck)
  have second_no: "a1 = Inr True \<Longrightarrow> a2 = Inr False \<Longrightarrow>
        run env this_project options s =
          (Inl (FatalException (''Not overwriting '' @ chalk_bold env (prettyPath env ?cp) @ ''.'')),
           (w3, snd s1 @ [Prompt (overwrite_message env ?kp) (Inr True),
                          Prompt (overwrite_message env ?cp) (Inr False)]))"
    by (simp only: first_yes) (rule await_Inl, simp add: cc)
  have second_err: "\<And>e. a1 = Inr True \<Longrightarrow> a2 = Inl e \<Longrightarrow>
        run env this_project options s =
          (Inl e, (w3, snd s1 @ [Prompt (overwrite_message env ?kp) (Inr True),
                          Prompt (overwrite_message env ?cp) (Inl e)]))"
    by (simp only: first_yes) (rule await_Inl, simp add: cc)
  have untouched: "\<not> (a1 = Inr True \<and> a2 = Inr True) \<Longrightarrow>
      \<not> list_ex touches_files (events_of (run env this_project options) s)"
  proof -
    assume n: "\<not> (a1 = Inr True \<and> a2 = Inr True)"
    consider (e1) e where "a1 = Inl e" | (n1) "a1 = Inr False"
      | (e2) e where "a1 = Inr True" "a2 = Inl e" | (n2) "a1 = Inr True" "a2 = Inr False"
      using n by (cases a1; cases a2) auto
    then show ?thesis
    proof cases
      case e1
      from first_err [OF e1] quiet show ?thesis
        by (simp add: events_of_def tr1 touches_files_def)
    next
      case n1
      from first_no [OF n1] quiet show ?thesis
        by (simp add: events_of_def tr1 touches_files_def)
    next
      case e2
      from second_err [OF e2] quiet show ?thesis
        by (simp add: events_of_def tr1 touches_files_def)
    next
      case n2
      from second_no [OF n2] quiet show ?thesis
        by (simp add: events_of_def tr1 touches_files_def)
    qed
  qed
  from first_no second_no untouched show ?thesis by blast
qed

text \<open>
  In the world where key and certificate exist and the operator answers yes, then no: the
  command fails on the certificate after two prompts, and both files are as they were.
\<close>

theorem declined_overwrite_unlinks_nothing_witness:
  "Some demo_project \<noteq> None
   \<and> pathExists mem_env (run_keyPath mem_env (Some demo_project) Map.empty) demo_world
   \<and> pathExists mem_env (run_certPath mem_env (Some demo_project) Map.empty)
        (demo_world \<lparr> answers := [False] \<rparr>)
   \<and> run mem_env (Some demo_project) Map.empty (demo_world, []) =
        (Inl (FatalException ''Not overwriting /app/.ionic/ssl/cert.pem.''),
         (demo_world \<lparr> answers := [] \<rparr>,
          [Prompt ''Key /app/.ionic/ssl/key.pem exists. Overwrite?'' (Inr True),
           Prompt ''Key /app/.ionic/ssl/cert.pem exists. Overwrite?'' (Inr False)]))
   \<and> nodes (demo_world \<lparr> answers := [] \<rparr>) ''/app/.ionic/ssl/key.pem'' = Some (File ''old key'')
   \<and> nodes (demo_world \<lparr> answers := [] \<rparr>) ''/app/.ionic/ssl/cert.pem'' = Some (File ''old cert'')"
proof -
  have h1: "Some demo_project \<noteq> None" by simp
  have h2: "await (ensureDirectory mem_env (run_keyPathDir mem_env (Some demo_project) Map.empty)) (\<lambda>_.
              ensureDirectory mem_env (run_certPathDir mem_env (Some demo_project) Map.empty))
              (demo_world, []) = (Inr (), (demo_world, []))"
    by (simp add: demo_paths ensureDirectory_unfold await_def demo_world_def)
  have h3: "pathExists mem_env (run_keyPath mem_env (Some demo_project) Map.empty) (fst (demo_world, []))"
    by (simp add: demo_paths demo_world_def)
  have h4: "prompt_confirm mem_env (overwrite_message mem_env (run_keyPath mem_env (Some demo_project) Map.empty))
              (fst (demo_world, [])) = (Inr True, demo_world \<lparr> answers := [False] \<rparr>)"
    by (simp add: demo_world_def)
  have h5: "pathExists mem_env (run_certPath mem_env (Some demo_project) Map.empty)
              (demo_world \<lparr> answers := [False] \<rparr>)"
    by (simp add: demo_paths demo_world_def)
  have h6: "prompt_confirm mem_env (overwrite_message mem_env (run_certPath mem_env (Some demo_project) Map.empty))
              (demo_world \<lparr> answers := [False] \<rparr>) = (Inr False, demo_world \<lparr> answers := [] \<rparr>)"
    by (simp add: demo_world_def)
  from declined_overwrite_unlinks_nothing [OF h1 h2 h3 h4 h5 h6]
  have "run mem_env (Some demo_project) Map.empty (demo_world, []) =
          (Inl (FatalException
             (''Not overwriting '' @
              chalk_bold mem_env (prettyPath mem_env (run_certPath mem_env (Some demo_project) Map.empty)) @ ''.'')),
           (demo_world \<lparr> answers := [] \<rparr>,
            snd (demo_world, []) @
            [Prompt (overwrite_message mem_env (run_keyPath mem_env (Some demo_project) Map.empty)) (Inr True),
             Prompt (overwrite_message mem_env (run_certPath mem_env (Some demo_project) Map.empty)) (Inr False)]))"
    by blast
  then have "run mem_env (Some demo_project) Map.empty (demo_world, []) =
        (Inl (FatalException ''Not overwriting /app/.ionic/ssl/cert.pem.''),
         (demo_world \<lparr> answers := [] \<rparr>,
          [Prompt ''Key /app/.ionic/ssl/key.pem exists. Overwrite?'' (Inr True),
           Prompt ''Key /app/.ionic/ssl/cert.pem exists. Overwrite?'' (Inr False)]))"
    by (simp add: demo_paths overwrite_message_def)
  with h3 h5 show ?thesis by (simp add: demo_world_def)
qed

subsection \<open>Outside a project\<close>

text \<open>
  When \<open>this.project\<close> is unset, \<open>run\<close> throws the fatal exception of line 118 at once:
  the world is the one it was called in and \<open>run\<close> has made no call.
\<close>

lemma run_outside_project:
  "run env None options s =
     (Inl (FatalException
        (''Cannot run '' @ chalk_green env ''ionic ssl generate'' @ '' outside a project directory.'')), s)
   \<and> events_of (run env None options) s = []"
  by (simp add: run_def throw_def events_of_def)

text \<open>
  Where \<open>preRun\<close> is awaited before \<open>run\<close>, the inherited check comes before the test for
  the project: its exception is the outcome when it throws, and otherwise \<open>run\<close> throws in
  the state the check left. What the check does is not decided in this unit.
\<close>

lemma preRun_then_run_outside_project:
  "await (preRun checkForOpenSSL) (\<lambda>_. run env None options) s =
     (case checkForOpenSSL s of
        (Inl e, s') \<Rightarrow> (Inl e, s')
      | (Inr x, s') \<Rightarrow>
          (Inl (FatalException
             (''Cannot run '' @ chalk_green env ''ionic ssl generate'' @ '' outside a project directory.'')), s'))"
  by (simp add: preRun_def await_def return_def run_def throw_def split: prod.split sum.split)

subsection \<open>The invocation of the external tool\<close>



subsection \<open>The subject string and the configuration text\<close>

text \<open>
  C4. For arbitrary text in the five subject fields, the rendered subject string is exactly
  \<open>/C=<country>/ST=<state>/L=<locality>/O=<organization>/CN=<commonName>\<close>: this order, all
  five fields, and no trace of the bits field.
\<close>

theorem formatSubj_exact:
  "formatSubj \<lparr> bits = b, countryName = c, stateOrProvinceName = st, localityName = l,
                 organizationName = org, commonName = cn \<rparr> =
   ''/C='' @ c @ ''/ST='' @ st @ ''/L='' @ l @ ''/O='' @ org @ ''/CN='' @ cn"
  by (simp add: formatSubj_def toPairs_def subjNames_def)


subsection \<open>Resolving the options\<close>

text \<open>
  C6, as the code has it. Each of the six subject and key-size values is the supplied
  option converted to text when the option is present and truthy (for a string: not
  empty), and its documented default otherwise; the key and certificate paths are
  \<open>path.resolve\<close> of the supplied option when it is present and truthy, and otherwise
  \<open>path.resolve\<close> of the default path, which is \<open>path.resolve\<close> of the project directory
  and \<open>.ionic/ssl/key.pem\<close> or \<open>.ionic/ssl/cert.pem\<close>.
\<close>

theorem options_resolve_when_truthy:
  "bits (run_cnf options) =
     (case options ''bits'' of
        Some v \<Rightarrow> if truthy v then js_String v else ''2048'' | None \<Rightarrow> ''2048'')
   \<and> countryName (run_cnf options) =
     (case options ''country-name'' of
        Some v \<Rightarrow> if truthy v then js_String v else ''US'' | None \<Rightarrow> ''US'')
   \<and> stateOrProvinceName (run_cnf options) =
     (case options ''state-or-province-name'' of
        Some v \<Rightarrow> if truthy v then js_String v else ''Wisconsin'' | None \<Rightarrow> ''Wisconsin'')
   \<and> localityName (run_cnf options) =
     (case options ''locality-name'' of
        Some v \<Rightarrow> if truthy v then js_String v else ''Madison'' | None \<Rightarrow> ''Madison'')
   \<and> organizationName (run_cnf options) =
     (case options ''organization-name'' of
        Some v \<Rightarrow> if truthy v then js_String v else ''Ionic'' | None \<Rightarrow> ''Ionic'')
   \<and> commonName (run_cnf options) =
     (case options ''common-name'' of
        Some v \<Rightarrow> if truthy v then js_String v else ''localhost'' | None \<Rightarrow> ''localhost'')
   \<and> run_keyPath env (Some p) options =
     path_resolve env
       [case options ''key-path'' of
          Some v \<Rightarrow>
            if truthy v then js_String v
            else path_resolve env [directory p, ''.ionic/ssl/key.pem'']
        | None \<Rightarrow> path_resolve env [directory p, ''.ionic/ssl/key.pem'']]
   \<and> run_certPath env (Some p) options =
     path_resolve env
       [case options ''cert-path'' of
          Some v \<Rightarrow>
            if truthy v then js_String v
            else path_resolve env [directory p, ''.ionic/ssl/cert.pem'']
        | None \<Rightarrow> path_resolve env [directory p, ''.ionic/ssl/cert.pem'']]"
  by (intro conjI)
    (simp_all add: run_cnf_def run_keyPath_def run_certPath_def getDefaultKeyPath_def
      getDefaultCertPath_def opt_get_def DEFAULT_BITS_def DEFAULT_COUNTRY_NAME_def
      DEFAULT_STATE_OR_PROVINCE_NAME_def DEFAULT_LOCALITY_NAME_def DEFAULT_ORGANIZATION_NAME_def
      DEFAULT_COMMON_NAME_def DEFAULT_KEY_FILE_def DEFAULT_CERT_FILE_def split: option.split)

text \<open>
  C6 as it is written fails where an option is supplied with the empty string: \<open>bits\<close> is
  present in the options, its text is the empty string, and the resolved value is the
  default.
\<close>

theorem supplied_empty_bits_counterexample:
  "[''bits'' \<mapsto> JString ''''] ''bits'' = Some (JString '''')
   \<and> js_String (JString '''') = ''''
   \<and> bits (run_cnf [''bits'' \<mapsto> JString '''']) = ''2048''
   \<and> bits (run_cnf [''bits'' \<mapsto> JString '''']) \<noteq> js_String (JString '''')"
  by (simp add: run_cnf_def opt_get_def DEFAULT_BITS_def)

text \<open>
  C9. An option supplied with a falsy value is treated as if it were absent: the resolved
  configuration, the resolved paths and the whole run are those of the options without
  the key, and for each of the eight options the resolved value is the documented default.
\<close>

theorem falsy_option_is_absent:
  assumes "\<not> truthy v"
  shows "run_cnf (options(k \<mapsto> v)) = run_cnf (options(k := None))
   \<and> run_keyPath env this_project (options(k \<mapsto> v)) = run_keyPath env this_project (options(k := None))
   \<and> run_certPath env this_project (options(k \<mapsto> v)) = run_certPath env this_project (options(k := None))
   \<and> run env this_project (options(k \<mapsto> v)) = run env this_project (options(k := None))
   \<and> bits (run_cnf (options(''bits'' \<mapsto> v))) = ''2048''
   \<and> countryName (run_cnf (options(''country-name'' \<mapsto> v))) = ''US''
   \<and> stateOrProvinceName (run_cnf (options(''state-or-province-name'' \<mapsto> v))) = ''Wisconsin''
   \<and> localityName (run_cnf (options(''locality-name'' \<mapsto> v))) = ''Madison''
   \<and> organizationName (run_cnf (options(''organization-name'' \<mapsto> v))) = ''Ionic''
   \<and> commonName (run_cnf (options(''common-name'' \<mapsto> v))) = ''localhost''
   \<and> run_keyPath env this_project (options(''key-path'' \<mapsto> v)) =
       path_resolve env [getDefaultKeyPath env this_project]
   \<and> run_certPath env this_project (options(''cert-path'' \<mapsto> v)) =
       path_resolve env [getDefaultCertPath env this_project]"
proof -
  have same: "\<And>k' d. (if truthy (opt_get (options(k \<mapsto> v)) k') then js_String (opt_get (options(k \<mapsto> v)) k') else d) =
      (if truthy (opt_get (options(k := None)) k') then js_String (opt_get (options(k := None)) k') else d)"
    using assms by (simp add: opt_get_def)
  have cnf: "run_cnf (options(k \<mapsto> v)) = run_cnf (options(k := None))"
    unfolding run_cnf_def by (simp only: same)
  have kp: "run_keyPath env this_project (options(k \<mapsto> v)) = run_keyPath env this_project (options(k := None))"
    unfolding run_keyPath_def by (simp only: same)
  have cp: "run_certPath env this_project (options(k \<mapsto> v)) = run_certPath env this_project (options(k := None))"
    unfolding run_certPath_def by (simp only: same)
  have "run env this_project (options(k \<mapsto> v)) = run env this_project (options(k := None))"
    unfolding run_def run_keyPathDir_def run_certPathDir_def by (simp only: cnf kp cp)
  moreover have "bits (run_cnf (options(''bits'' \<mapsto> v))) = ''2048''"
    "countryName (run_cnf (options(''country-name'' \<mapsto> v))) = ''US''"
    "stateOrProvinceName (run_cnf (options(''state-or-province-name'' \<mapsto> v))) = ''Wisconsin''"
    "localityName (run_cnf (options(''locality-name'' \<mapsto> v))) = ''Madison''"
    "organizationName (run_cnf (options(''organization-name'' \<mapsto> v))) = ''Ionic''"
    "commonName (run_cnf (options(''common-name'' \<mapsto> v))) = ''localhost''"
    using assms
    by (simp_all add: run_cnf_def opt_get_def DEFAULT_BITS_def DEFAULT_COUNTRY_NAME_def
      DEFAULT_STATE_OR_PROVINCE_NAME_def DEFAULT_LOCALITY_NAME_def DEFAULT_ORGANIZATION_NAME_def
      DEFAULT_COMMON_NAME_def)
  moreover have "run_keyPath env this_project (options(''key-path'' \<mapsto> v)) =
       path_resolve env [getDefaultKeyPath env this_project]"
    "run_certPath env this_project (options(''cert-path'' \<mapsto> v)) =
       path_resolve env [getDefaultCertPath env this_project]"
    using assms by (simp_all add: run_keyPath_def run_certPath_def opt_get_def)
  ultimately show ?thesis using cnf kp cp by simp
qed

text \<open>The empty string is falsy: supplied for any of the options, it yields the default.\<close>

theorem falsy_option_is_absent_witness:
  "\<not> truthy (JString '''')
   \<and> run_cnf [''bits'' \<mapsto> JString ''''] = run_cnf Map.empty
   \<and> bits (run_cnf [''bits'' \<mapsto> JString '''']) = ''2048''
   \<and> commonName (run_cnf [''common-name'' \<mapsto> JString '''']) = ''localhost''
   \<and> run_keyPath mem_env (Some demo_project) [''key-path'' \<mapsto> JString ''''] =
       ''/app/.ionic/ssl/key.pem''"
proof -
  have h: "\<not> truthy (JString '''')" by simp
  from falsy_option_is_absent [OF h, of Map.empty "''bits''" mem_env "Some demo_project"]
  have "run_cnf (Map.empty(''bits'' \<mapsto> JString '''')) = run_cnf (Map.empty(''bits'' := None))"
    "bits (run_cnf (Map.empty(''bits'' \<mapsto> JString ''''))) = ''2048''"
    "commonName (run_cnf (Map.empty(''common-name'' \<mapsto> JString ''''))) = ''localhost''"
    "run_keyPath mem_env (Some demo_project) (Map.empty(''key-path'' \<mapsto> JString '''')) =
       path_resolve mem_env [getDefaultKeyPath mem_env (Some demo_project)]"
    by blast+
  then show ?thesis using h
    by (simp add: getDefaultKeyPath_def demo_project_def mem_resolve_def DEFAULT_KEY_FILE_def)
qed

subsection \<open>Destination directories\<close>



subsection \<open>The temporary file\<close>


subsection \<open>The overwrite prompt\<close>

text \<open>
  C10. \<open>checkExistingFile\<close> on a path that does not exist returns \<open>undefined\<close> and shows
  no prompt. On a path that exists it prompts \<open>Key <path> exists. Overwrite?\<close>; it returns
  \<open>true\<close> when the operator confirms, and throws the fatal exception
  \<open>Not overwriting <path>.\<close> when the operator declines; an exception of the prompt itself
  goes on. It never returns \<open>false\<close>. Every prompt of a run is worded this way on the key
  path or on the certificate path: the word \<open>Key\<close> also stands before the certificate.
\<close>

theorem checkExistingFile_outcomes:
  "checkExistingFile env p (w, tr) =
     (if pathExists env p w then
        (case prompt_confirm env (''Key '' @ chalk_bold env (prettyPath env p) @ '' exists. Overwrite?'') w of
           (Inl e, w') \<Rightarrow>
             (Inl e, (w', tr @ [Prompt (''Key '' @ chalk_bold env (prettyPath env p) @ '' exists. Overwrite?'') (Inl e)]))
         | (Inr confirm, w') \<Rightarrow>
             (if confirm
              then (Inr (Some True),
                    (w', tr @ [Prompt (''Key '' @ chalk_bold env (prettyPath env p) @ '' exists. Overwrite?'') (Inr True)]))
              else (Inl (FatalException (''Not overwriting '' @ chalk_bold env (prettyPath env p) @ ''.'')),
                    (w', tr @ [Prompt (''Key '' @ chalk_bold env (prettyPath env p) @ '' exists. Overwrite?'') (Inr False)]))))
      else (Inr None, (w, tr)))
   \<and> fst (checkExistingFile env p (w, tr)) \<noteq> Inr (Some False)
   \<and> (this_project \<noteq> None \<longrightarrow>
        list_all
          (\<lambda>e. case e of
                 Prompt m a \<Rightarrow>
                   m = ''Key '' @ chalk_bold env (prettyPath env (run_keyPath env this_project options)) @ '' exists. Overwrite?''
                   \<or> m = ''Key '' @ chalk_bold env (prettyPath env (run_certPath env this_project options)) @ '' exists. Overwrite?''
               | _ \<Rightarrow> True)
          (events_of (run env this_project options) s))"
proof (intro conjI impI)
  show "checkExistingFile env p (w, tr) =
     (if pathExists env p w then
        (case prompt_confirm env (''Key '' @ chalk_bold env (prettyPath env p) @ '' exists. Overwrite?'') w of
           (Inl e, w') \<Rightarrow>
             (Inl e, (w', tr @ [Prompt (''Key '' @ chalk_bold env (prettyPath env p) @ '' exists. Overwrite?'') (Inl e)]))
         | (Inr confirm, w') \<Rightarrow>
             (if confirm
              then (Inr (Some True),
                    (w', tr @ [Prompt (''Key '' @ chalk_bold env (prettyPath env p) @ '' exists. Overwrite?'') (Inr True)]))
              else (Inl (FatalException (''Not overwriting '' @ chalk_bold env (prettyPath env p) @ ''.'')),
                    (w', tr @ [Prompt (''Key '' @ chalk_bold env (prettyPath env p) @ '' exists. Overwrite?'') (Inr False)]))))
      else (Inr None, (w, tr)))"
    using checkExistingFile_unfold [of env p w tr] by (simp only: overwrite_message_def)
  show "fst (checkExistingFile env p (w, tr)) \<noteq> Inr (Some False)"
    by (simp add: checkExistingFile_unfold split: prod.split sum.split)
next
  assume proj: "this_project \<noteq> None"
  let ?A = "\<lambda>e. case e of
                 Prompt m a \<Rightarrow>
                   m = ''Key '' @ chalk_bold env (prettyPath env (run_keyPath env this_project options)) @ '' exists. Overwrite?''
                   \<or> m = ''Key '' @ chalk_bold env (prettyPath env (run_certPath env this_project options)) @ '' exists. Overwrite?''
               | _ \<Rightarrow> True"
  have "only ?A (run env this_project options)"
    by (rule only_run [OF proj]) (simp_all add: overwrite_message_def)
  from emitsD(2) [OF this [unfolded only_def]]
  show "list_all ?A (events_of (run env this_project options) s)" .
qed

text \<open>
  On the existing certificate the operator is asked about a \<open>Key\<close>; confirming returns
  \<open>true\<close>, declining throws, and a missing file returns \<open>undefined\<close> without a prompt.
\<close>

theorem checkExistingFile_outcomes_witness:
  "Some demo_project \<noteq> None
   \<and> checkExistingFile mem_env ''/app/.ionic/ssl/cert.pem'' (demo_world, []) =
       (Inr (Some True),
        (demo_world \<lparr> answers := [False] \<rparr>,
         [Prompt ''Key /app/.ionic/ssl/cert.pem exists. Overwrite?'' (Inr True)]))
   \<and> checkExistingFile mem_env ''/app/.ionic/ssl/cert.pem'' (demo_world \<lparr> answers := [False] \<rparr>, []) =
       (Inl (FatalException ''Not overwriting /app/.ionic/ssl/cert.pem.''),
        (demo_world \<lparr> answers := [] \<rparr>,
         [Prompt ''Key /app/.ionic/ssl/cert.pem exists. Overwrite?'' (Inr False)]))
   \<and> checkExistingFile mem_env ''/app/.ionic/ssl/cert.pem'' (empty_world, []) = (Inr None, (empty_world, []))
   \<and> list_all
        (\<lambda>e. case e of
               Prompt m a \<Rightarrow>
                 m = ''Key /app/.ionic/ssl/key.pem exists. Overwrite?''
                 \<or> m = ''Key /app/.ionic/ssl/cert.pem exists. Overwrite?''
             | _ \<Rightarrow> True)
        (events_of (run mem_env (Some demo_project) Map.empty) (demo_world, []))"
proof -
  have h: "Some demo_project \<noteq> None" by simp
  from checkExistingFile_outcomes [of mem_env "''/app/.ionic/ssl/cert.pem''" demo_world "[]"]
  have a: "checkExistingFile mem_env ''/app/.ionic/ssl/cert.pem'' (demo_world, []) =
       (Inr (Some True),
        (demo_world \<lparr> answers := [False] \<rparr>,
         [Prompt ''Key /app/.ionic/ssl/cert.pem exists. Overwrite?'' (Inr True)]))"
    by (simp add: demo_world_def)
  from checkExistingFile_outcomes
    [of mem_env "''/app/.ionic/ssl/cert.pem''" "demo_world \<lparr> answers := [False] \<rparr>" "[]"]
  have b: "checkExistingFile mem_env ''/app/.ionic/ssl/cert.pem'' (demo_world \<lparr> answers := [False] \<rparr>, []) =
       (Inl (FatalException ''Not overwriting /app/.ionic/ssl/cert.pem.''),
        (demo_world \<lparr> answers := [] \<rparr>,
         [Prompt ''Key /app/.ionic/ssl/cert.pem exists. Overwrite?'' (Inr False)]))"
    by (simp add: demo_world_def)
  from checkExistingFile_outcomes [of mem_env "''/app/.ionic/ssl/cert.pem''" empty_world "[]"]
  have c: "checkExistingFile mem_env ''/app/.ionic/ssl/cert.pem'' (empty_world, []) = (Inr None, (empty_world, []))"
    by (simp add: empty_world_def)
  from checkExistingFile_outcomes
    [of mem_env "''/app/.ionic/ssl/cert.pem''" demo_world "[]" "Some demo_project" Map.empty "(demo_world, [])"] h
  have "list_all
          (\<lambda>e. case e of
                 Prompt m a \<Rightarrow>
                   m = ''Key '' @ chalk_bold mem_env (prettyPath mem_env (run_keyPath mem_env (Some demo_project) Map.empty)) @ '' exists. Overwrite?''
                   \<or> m = ''Key '' @ chalk_bold mem_env (prettyPath mem_env (run_certPath mem_env (Some demo_project) Map.empty)) @ '' exists. Overwrite?''
               | _ \<Rightarrow> True)
          (events_of (run mem_env (Some demo_project) Map.empty) (demo_world, []))"
    by blast
  then have d: "list_all
        (\<lambda>e. case e of
               Prompt m a \<Rightarrow>
                 m = ''Key /app/.ionic/ssl/key.pem exists. Overwrite?''
                 \<or> m = ''Key /app/.ionic/ssl/cert.pem exists. Overwrite?''
             | _ \<Rightarrow> True)
        (events_of (run mem_env (Some demo_project) Map.empty) (demo_world, []))"
    by (simp add: demo_paths cong: event.case_cong)
  from h a b c d show ?thesis by blast
qed

end
